theory Spec2Isabelle
  imports Main "HOL-Library.Word"
begin

unbundle bit_operations_syntax

section \<open>Python values of the sample application\<close>

text \<open>
  The producer builds an order as nested Python dicts and lists, and the consumer reads
  one back through subscripts. A dict is an association list in the order of the dict
  display (Python dicts keep insertion order). A float is kept as the decimal literal
  the source writes (\<open>5.00\<close> as \<open>''5.00''\<close>): nothing here depends on its double value.
\<close>

datatype pyval =
    PNone
  | PStr string
  | PInt int
  | PFloat string
  | PList "pyval list"
  | PDict "(string \<times> pyval) list"

datatype exn =
    KeyError string
  | TypeError
  | IndexError
  | KeyboardInterrupt
  | OtherError string

text \<open>\<open>v[k]\<close> with a string key: a missing key raises KeyError, a value that is not a
  dict raises TypeError.\<close>

fun getitem :: "pyval \<Rightarrow> string \<Rightarrow> exn + pyval" where
  "getitem (PDict kvs) k = (case map_of kvs k of None \<Rightarrow> Inl (KeyError k) | Some v \<Rightarrow> Inr v)"
| "getitem PNone k = Inl TypeError"
| "getitem (PStr s) k = Inl TypeError"
| "getitem (PInt i) k = Inl TypeError"
| "getitem (PFloat f) k = Inl TypeError"
| "getitem (PList xs) k = Inl TypeError"

text \<open>\<open>v[i]\<close> on a list with a non-negative index: out of range raises IndexError.\<close>

fun getindex :: "pyval \<Rightarrow> nat \<Rightarrow> exn + pyval" where
  "getindex (PList xs) i = (if i < length xs then Inr (xs ! i) else Inl IndexError)"
| "getindex (PDict kvs) i = Inl (KeyError ''<int>'')"
| "getindex v i = Inl TypeError"

text \<open>\<open>len(v)\<close>: defined on strings, lists and dicts.\<close>

fun py_len :: "pyval \<Rightarrow> exn + nat" where
  "py_len (PList xs) = Inr (length xs)"
| "py_len (PDict kvs) = Inr (length kvs)"
| "py_len (PStr s) = Inr (length s)"
| "py_len v = Inl TypeError"

text \<open>Sequencing of two subscripts, \<open>v[k1][k2]\<close>: the first exception wins.\<close>

definition getitem2 :: "pyval \<Rightarrow> string \<Rightarrow> string \<Rightarrow> exn + pyval" where
  "getitem2 v k1 k2 = (case getitem v k1 of Inl e \<Rightarrow> Inl e | Inr w \<Rightarrow> getitem w k2)"

section \<open>Configuration of the two scripts\<close>

text \<open>The module constants of \<open>producer.py\<close> and \<open>consumer.py\<close>; \<open>GROUP_ID\<close> is the
  consumer's alone.\<close>

definition KAFKA_BOOTSTRAP :: string where
  "KAFKA_BOOTSTRAP = ''localhost:9092''"

definition SCHEMA_REGISTRY_URL :: string where
  "SCHEMA_REGISTRY_URL = ''http://localhost:8081''"

definition TOPIC :: string where
  "TOPIC = ''orders''"

definition GROUP_ID :: string where
  "GROUP_ID = ''split-schema-demo-consumer''"

section \<open>producer.py\<close>

text \<open>
  \<open>create_sample_order()\<close>. Its three reads of the environment are parameters, in the
  order the dict display evaluates them: \<open>uuid1 = str(uuid.uuid4())\<close> for the order id,
  \<open>now = datetime.now().isoformat()\<close>, and \<open>uuid2 = str(uuid.uuid4())\<close>, of which the
  transaction id keeps the first eight characters (\<open>[:8]\<close>).
\<close>

definition create_sample_order :: "string \<Rightarrow> string \<Rightarrow> string \<Rightarrow> pyval" where
  "create_sample_order uuid1 now uuid2 =
     PDict [
       (''orderId'', PStr uuid1),
       (''orderDate'', PStr now),
       (''status'', PStr ''PENDING''),
       (''customer'', PDict [
          (''customerId'', PStr ''CUST-001''),
          (''firstName'', PStr ''Jane''),
          (''lastName'', PStr ''Doe''),
          (''email'', PStr ''jane.doe@example.com''),
          (''phone'', PDict [(''string'', PStr ''+1-555-0100'')]),
          (''billingAddress'', PDict [
             (''street'', PStr ''123 Main St''),
             (''street2'', PNone),
             (''city'', PStr ''Springfield''),
             (''state'', PStr ''IL''),
             (''zip'', PStr ''62701''),
             (''country'', PStr ''US'')]),
          (''shippingAddress'', PNone)]),
       (''items'', PList [
          PDict [
            (''productId'', PStr ''PROD-001''),
            (''productName'', PStr ''Widget A''),
            (''quantity'', PInt 2),
            (''unitPrice'', PDict [(''amount'', PFloat ''29.99''), (''currency'', PStr ''USD'')]),
            (''discount'', PNone)],
          PDict [
            (''productId'', PStr ''PROD-002''),
            (''productName'', PStr ''Widget B''),
            (''quantity'', PInt 1),
            (''unitPrice'', PDict [(''amount'', PFloat ''49.99''), (''currency'', PStr ''USD'')]),
            (''discount'', PDict [(''com.example.types.Money'', PDict [(''amount'', PFloat ''5.00''), (''currency'', PStr ''USD'')])])]]),
       (''subtotal'', PDict [(''amount'', PFloat ''109.97''), (''currency'', PStr ''USD'')]),
       (''tax'', PDict [(''amount'', PFloat ''8.80''), (''currency'', PStr ''USD'')]),
       (''total'', PDict [(''amount'', PFloat ''118.77''), (''currency'', PStr ''USD'')]),
       (''payment'', PDict [
          (''method'', PStr ''CREDIT_CARD''),
          (''transactionId'', PDict [(''string'', PStr (''TXN-'' @ take 8 uuid2))]),
          (''amount'', PDict [(''amount'', PFloat ''118.77''), (''currency'', PStr ''USD'')])]),
       (''notes'', PNone)]"

text \<open>The discount of the item at position \<open>i\<close>: \<open>order["items"][i]["discount"]\<close>.\<close>

definition item_discount :: "pyval \<Rightarrow> nat \<Rightarrow> exn + pyval" where
  "item_discount order i =
     (case getitem order ''items'' of
        Inl e \<Rightarrow> Inl e
      | Inr items \<Rightarrow>
          (case getindex items i of Inl e \<Rightarrow> Inl e | Inr item \<Rightarrow> getitem item ''discount''))"

text \<open>\<open>len(order["items"])\<close>.\<close>

definition items_len :: "pyval \<Rightarrow> exn + nat" where
  "items_len order = (case getitem order ''items'' of Inl e \<Rightarrow> Inl e | Inr items \<Rightarrow> py_len items)"

section \<open>consumer.py\<close>

text \<open>
  What \<open>print\<close> writes is kept as lines of fragments: the literal text of an f-string
  and the values substituted into it, so that no rendering of a value has to be modelled.
\<close>

datatype frag = Lit string | Val pyval

type_synonym line = "frag list"

text \<open>
  A message as the consumer reads it: \<open>msg.error()\<close> is None or a KafkaError (kept as
  its text), \<open>msg.value()\<close> is the payload bytes or None.
\<close>

record message =
  msg_error :: "string option"
  msg_value :: "8 word list option"

text \<open>
  One call of \<open>consumer.poll(timeout=1.0)\<close>: no message within the timeout, a message,
  or an exception raised while polling (Ctrl+C raises KeyboardInterrupt there).
\<close>

datatype poll_result = PollNone | PollMsg message | PollRaise exn

text \<open>
  \<open>avro_deserializer(msg.value(), SerializationContext(TOPIC, MessageField.VALUE))\<close>
  is the library's: a parameter that returns a value (None included) or raises.
\<close>

type_synonym deserializer = "8 word list option \<Rightarrow> exn + pyval"

text \<open>An f-string with one and with two substituted expressions, evaluated left to right:
  the first exception wins.\<close>

definition fmt1 :: "string \<Rightarrow> exn + pyval \<Rightarrow> exn + line" where
  "fmt1 s x = (case x of Inl e \<Rightarrow> Inl e | Inr v \<Rightarrow> Inr [Lit s, Val v])"

definition fmt2 :: "string \<Rightarrow> exn + pyval \<Rightarrow> string \<Rightarrow> exn + pyval \<Rightarrow> exn + line" where
  "fmt2 s x t y =
     (case x of
        Inl e \<Rightarrow> Inl e
      | Inr v \<Rightarrow> (case y of Inl e \<Rightarrow> Inl e | Inr w \<Rightarrow> Inr [Lit s, Val v, Lit t, Val w]))"

text \<open>A run of \<open>print\<close> statements: the lines before the first one that raises are
  written, the exception leaves the rest unwritten.\<close>

fun print_lines :: "(exn + line) list \<Rightarrow> line list \<Rightarrow> line list \<times> exn option" where
  "print_lines [] out = (out, None)"
| "print_lines (Inl e # ls) out = (out, Some e)"
| "print_lines (Inr l # ls) out = print_lines ls (out @ [l])"

text \<open>The six \<open>print\<close> statements under \<open>if order is not None\<close>.\<close>

definition print_order :: "pyval \<Rightarrow> line list \<Rightarrow> line list \<times> exn option" where
  "print_order order out =
     print_lines [
       fmt1 ''Order: '' (getitem order ''orderId''),
       fmt2 ''  Customer: '' (getitem2 order ''customer'' ''firstName'')
            '' '' (getitem2 order ''customer'' ''lastName''),
       fmt1 ''  Items: ''
            (case items_len order of Inl e \<Rightarrow> Inl e | Inr n \<Rightarrow> Inr (PInt (int n))),
       fmt2 ''  Total: '' (getitem2 order ''total'' ''amount'')
            '' '' (getitem2 order ''total'' ''currency''),
       fmt1 ''  Status: '' (getitem order ''status''),
       Inr []] out"

text \<open>One iteration of \<open>while True\<close>: the output so far, extended, and the exception
  that left the body, if one did.\<close>

definition loop_body :: "deserializer \<Rightarrow> poll_result \<Rightarrow> line list \<Rightarrow> line list \<times> exn option" where
  "loop_body d p out =
     (case p of
        PollRaise e \<Rightarrow> (out, Some e)
      | PollNone \<Rightarrow> (out, None)
      | PollMsg msg \<Rightarrow>
          (case msg_error msg of
             Some err \<Rightarrow> (out @ [[Lit ''Consumer error: '', Val (PStr err)]], None)
           | None \<Rightarrow>
               (case d (msg_value msg) of
                  Inl e \<Rightarrow> (out, Some e)
                | Inr order \<Rightarrow> if order \<noteq> PNone then print_order order out else (out, None))))"

text \<open>
  The loop \<open>while True\<close> has no \<open>break\<close>: only an exception leaves it. It is run
  against the list of what the successive polls give; when the list is used up the loop
  is still polling, which the result None stands for.
\<close>

fun poll_loop :: "deserializer \<Rightarrow> poll_result list \<Rightarrow> line list \<Rightarrow> line list \<times> exn option" where
  "poll_loop d [] out = (out, None)"
| "poll_loop d (p # ps) out =
     (case loop_body d p out of
        (out', Some e) \<Rightarrow> (out', Some e)
      | (out', None) \<Rightarrow> poll_loop d ps out')"

text \<open>The consumer object: what it is subscribed to and how often \<open>close()\<close> was called.\<close>

record consumer =
  subscription :: "string list"
  close_calls :: nat

definition subscribe :: "string list \<Rightarrow> consumer \<Rightarrow> consumer" where
  "subscribe topics c = c\<lparr>subscription := topics\<rparr>"

definition close :: "consumer \<Rightarrow> consumer" where
  "close c = c\<lparr>close_calls := close_calls c + 1\<rparr>"

text \<open>How a run of \<open>main\<close> stands: it returned, it raised, or it is still in the loop.\<close>

datatype status = Returned | Raised exn | Polling

record run =
  printed :: "line list"
  cons :: consumer
  status :: status

definition banner :: "line list" where
  "banner =
     [[Lit ''=== Avro Consumer with Split Schemas ===''],
      [Lit ''Kafka:           '', Val (PStr KAFKA_BOOTSTRAP)],
      [Lit ''Schema Registry: '', Val (PStr SCHEMA_REGISTRY_URL)],
      [Lit ''Topic:           '', Val (PStr TOPIC)],
      [Lit ''Group:           '', Val (PStr GROUP_ID)],
      [],
      [Lit (''Consuming from topic '' @ [CHR 0x27]), Val (PStr TOPIC),
       Lit ([CHR 0x27] @ ''... (Ctrl+C to stop)'' @ [CHR 0x0A])]]"

text \<open>
  \<open>main()\<close>: the banner, the subscription, then \<open>try: while True ... except
  KeyboardInterrupt: print ... finally: consumer.close()\<close>. The \<open>except\<close> clause
  handles KeyboardInterrupt only; the \<open>finally\<close> clause runs on the way out of the
  \<open>try\<close> statement, handled or not, after which an unhandled exception goes on.
\<close>

definition main :: "deserializer \<Rightarrow> poll_result list \<Rightarrow> run" where
  "main d polls =
     (let c = subscribe [TOPIC] \<lparr>subscription = [], close_calls = 0\<rparr> in
      case poll_loop d polls banner of
        (out, None) \<Rightarrow> \<lparr>printed = out, cons = c, status = Polling\<rparr>
      | (out, Some e) \<Rightarrow>
          (let (out', pending) =
                 (if e = KeyboardInterrupt
                  then (out @ [[Lit (CHR 0x0A # ''Shutting down...'')]], None)
                  else (out, Some e));
               c' = close c
           in \<lparr>printed = out', cons = c',
               status = (case pending of None \<Rightarrow> Returned | Some e' \<Rightarrow> Raised e')\<rparr>))"

text \<open>
  The polls that leave the loop running: no message, a message with an error, a message
  that deserializes to None, and a message that deserializes to an order the six
  \<open>print\<close> statements can read.
\<close>

fun benign :: "deserializer \<Rightarrow> poll_result \<Rightarrow> bool" where
  "benign d PollNone = True"
| "benign d (PollRaise e) = False"
| "benign d (PollMsg msg) =
     (case msg_error msg of
        Some err \<Rightarrow> True
      | None \<Rightarrow>
          (case d (msg_value msg) of
             Inl e \<Rightarrow> False
           | Inr order \<Rightarrow> order = PNone \<or> snd (print_order order []) = None))"

text \<open>
  A concrete run: a deserializer that gives None for a payload of None, raises on an empty
  payload and gives the sample order otherwise, and four polls that leave the loop running.
\<close>

definition demo_deserializer :: deserializer where
  "demo_deserializer v =
     (case v of
        None \<Rightarrow> Inr PNone
      | Some bs \<Rightarrow>
          if bs = [] then Inl (OtherError ''SerializationError'')
          else Inr (create_sample_order ''u1'' ''now'' ''u2''))"

definition demo_polls :: "poll_result list" where
  "demo_polls =
     [PollNone,
      PollMsg \<lparr>msg_error = None, msg_value = Some [0, 0, 0, 0, 1, 2]\<rparr>,
      PollMsg \<lparr>msg_error = Some ''broker down'', msg_value = None\<rparr>,
      PollMsg \<lparr>msg_error = None, msg_value = None\<rparr>]"

section \<open>The wire codec\<close>

text \<open>
  The two scripts hand records to the library's serializer and payloads to its
  deserializer; the framing those apply is not in the repository's files. It is taken
  from the specification, sections 4.5, 6 and 7.
\<close>

text \<open>Modelled from the spec: the error taxonomy of section 7; no error type is in the
  repository's files.\<close>

datatype error =
    SchemaError
  | SubjectConflict
  | RegistryTimeout
  | RegistryUnavailable
  | ReferenceCycle
  | MalformedEnvelope
  | SchemaMismatch

text \<open>Modelled from the spec: the length of the WireEnvelope header, a 1-byte format
  marker and a 4-byte globalId; the constant is not in the repository's files.\<close>

definition header_length :: nat where
  "header_length = 5"

text \<open>Modelled from the spec: the globalId as a big-endian unsigned 32-bit integer, most
  significant byte first; the packing routine is not in the repository's files.\<close>

definition be32 :: "32 word \<Rightarrow> 8 word list" where
  "be32 w = [ucast (drop_bit 24 w), ucast (drop_bit 16 w), ucast (drop_bit 8 w), ucast w]"

text \<open>Modelled from the spec: reading a big-endian unsigned integer back from its bytes;
  the unpacking routine is not in the repository's files.\<close>

definition from_be32 :: "8 word list \<Rightarrow> 32 word" where
  "from_be32 bs = foldl (\<lambda>acc b. push_bit 8 acc OR ucast b) 0 bs"

text \<open>
  Modelled from the spec: what the codec is given from outside. The reserved value of the
  format marker (the spec fixes none), \<open>resolve\<close> of section 4.4, and the Avro binary
  encoding and decoding of a record against a resolved schema, which the spec leaves to a
  library; decoding gives None on a structural error. None of these is in the
  repository's files.
\<close>

record ('s, 'r) collaborators =
  format_marker :: "8 word"
  resolve :: "32 word \<Rightarrow> error + 's"
  avro_write :: "'s \<Rightarrow> 'r \<Rightarrow> error + 8 word list"
  avro_read :: "'s \<Rightarrow> 8 word list \<Rightarrow> 'r option"

text \<open>
  Modelled from the spec: \<open>encode(globalId, record)\<close> of section 4.5, which is not in the
  repository's files: resolve the globalId, serialize the record against the resolved
  schema, prepend the format marker and the big-endian globalId.
\<close>

definition encode :: "('s, 'r) collaborators \<Rightarrow> 32 word \<Rightarrow> 'r \<Rightarrow> error + 8 word list" where
  "encode c gid r =
     (case resolve c gid of
        Inl e \<Rightarrow> Inl e
      | Inr s \<Rightarrow>
          (case avro_write c s r of
             Inl e \<Rightarrow> Inl e
           | Inr payload \<Rightarrow> Inr (format_marker c # be32 gid @ payload)))"

text \<open>
  Modelled from the spec: \<open>decode(bytes)\<close> of section 4.5, which is not in the
  repository's files: MalformedEnvelope for a buffer shorter than the header or with an
  unrecognized marker; otherwise read the globalId, resolve it and deserialize the
  remaining bytes, with SchemaMismatch on a structural error.
\<close>

definition decode :: "('s, 'r) collaborators \<Rightarrow> 8 word list \<Rightarrow> error + 32 word \<times> 'r" where
  "decode c bs =
     (if length bs < header_length then Inl MalformedEnvelope
      else if bs ! 0 \<noteq> format_marker c then Inl MalformedEnvelope
      else
        (let gid = from_be32 (take 4 (drop 1 bs)) in
         case resolve c gid of
           Inl e \<Rightarrow> Inl e
         | Inr s \<Rightarrow>
             (case avro_read c s (drop header_length bs) of
                None \<Rightarrow> Inl SchemaMismatch
              | Some r \<Rightarrow> Inr (gid, r))))"

text \<open>A concrete codec: marker 0, one schema registered under the id \<open>0x01020304\<close>, and
  records that are their own payload.\<close>

definition demo_collaborators :: "(string, 8 word list) collaborators" where
  "demo_collaborators =
     \<lparr>format_marker = 0,
      resolve = (\<lambda>gid. if gid = 0x01020304 then Inr ''Order'' else Inl RegistryUnavailable),
      avro_write = (\<lambda>s r. Inr r),
      avro_read = (\<lambda>s bs. Some bs)\<rparr>"

section \<open>Properties of the producer\<close>

text \<open>
  Claim C9. Every call of \<open>create_sample_order\<close>, whatever the two UUIDs and the clock
  give, returns a record whose \<open>customer.shippingAddress\<close> is None, whose \<open>notes\<close> is
  None, whose \<open>items\<close> list has exactly two entries, whose first item has a None
  discount and whose second item has a discount that is present and tagged with the
  union branch \<open>com.example.types.Money\<close>.
\<close>

theorem create_sample_order_optional_fields:
  "getitem2 (create_sample_order uuid1 now uuid2) ''customer'' ''shippingAddress'' = Inr PNone
   \<and> getitem (create_sample_order uuid1 now uuid2) ''notes'' = Inr PNone
   \<and> items_len (create_sample_order uuid1 now uuid2) = Inr 2
   \<and> item_discount (create_sample_order uuid1 now uuid2) 0 = Inr PNone
   \<and> item_discount (create_sample_order uuid1 now uuid2) 1
       = Inr (PDict [(''com.example.types.Money'',
                      PDict [(''amount'', PFloat ''5.00''), (''currency'', PStr ''USD'')])])"
  by (simp add: create_sample_order_def getitem2_def items_len_def item_discount_def)

section \<open>Properties of the consumer\<close>

lemma print_lines_snd: "snd (print_lines ls out) = snd (print_lines ls out')"
proof (induction ls arbitrary: out out')
  case Nil
  show ?case by simp
next
  case (Cons l ls)
  show ?case
  proof (cases l)
    case (Inl e)
    then show ?thesis by simp
  next
    case (Inr x)
    then show ?thesis using Cons.IH [of "out @ [x]" "out' @ [x]"] by simp
  qed
qed

lemma print_order_snd: "snd (print_order order out) = snd (print_order order out')"
  unfolding print_order_def by (rule print_lines_snd)

lemma loop_body_benign:
  assumes "benign d p"
  shows "snd (loop_body d p out) = None"
proof (cases p)
  case PollNone
  then show ?thesis by (simp add: loop_body_def)
next
  case (PollRaise e)
  then show ?thesis using assms by simp
next
  case (PollMsg msg)
  show ?thesis
  proof (cases "msg_error msg")
    case (Some err)
    then show ?thesis using PollMsg by (simp add: loop_body_def)
  next
    case None
    show ?thesis
    proof (cases "d (msg_value msg)")
      case (Inl e)
      then show ?thesis using assms PollMsg None by simp
    next
      case (Inr order)
      then have "order = PNone \<or> snd (print_order order []) = None"
        using assms PollMsg None by simp
      then show ?thesis
        using PollMsg None Inr print_order_snd [of order out "[]"]
        by (auto simp: loop_body_def)
    qed
  qed
qed

lemma poll_loop_append:
  "poll_loop d (pre @ post) out =
     (case poll_loop d pre out of (out', Some e) \<Rightarrow> (out', Some e) | (out', None) \<Rightarrow> poll_loop d post out')"
  by (induction pre arbitrary: out) (auto split: prod.splits option.splits)

lemma poll_loop_benign: "list_all (benign d) pre \<Longrightarrow> snd (poll_loop d pre out) = None"
proof (induction pre arbitrary: out)
  case Nil show ?case by simp
next
  case (Cons p ps)
  then have "snd (loop_body d p out) = None" and "list_all (benign d) ps"
    by (simp_all add: loop_body_benign)
  then show ?case using Cons.IH by (auto split: prod.splits option.splits)
qed

lemma main_close_calls:
  "close_calls (cons (main d polls)) = (if status (main d polls) = Polling then 0 else 1)"
  by (auto simp: main_def Let_def close_def subscribe_def split: prod.splits option.splits)

lemma main_returns:
  assumes "list_all (benign d) pre"
  shows "status (main d (pre @ PollRaise KeyboardInterrupt # post)) = Returned"
proof -
  obtain out where "poll_loop d pre banner = (out, None)"
    using poll_loop_benign [OF assms, of banner] by (cases "poll_loop d pre banner") auto
  then have "poll_loop d (pre @ PollRaise KeyboardInterrupt # post) banner = (out, Some KeyboardInterrupt)"
    by (simp add: poll_loop_append loop_body_def)
  then show ?thesis by (simp add: main_def Let_def)
qed

lemma main_skips_None:
  assumes "msg_error msg = None" "d (msg_value msg) = Inr PNone"
  shows "main d (pre @ PollMsg msg # post) = main d (pre @ post)"
proof -
  have "poll_loop d (PollMsg msg # post) out = poll_loop d post out" for out
    using assms by (simp add: loop_body_def)
  then have "poll_loop d (pre @ PollMsg msg # post) banner = poll_loop d (pre @ post) banner"
    by (simp add: poll_loop_append split: prod.splits option.splits)
  then show ?thesis by (simp add: main_def)
qed

lemma main_exits: "status (main d (pre @ PollRaise e # post)) \<noteq> Polling"
proof (cases "poll_loop d pre banner")
  case (Pair out r)
  show ?thesis
  proof (cases r)
    case None
    then have "poll_loop d (pre @ PollRaise e # post) banner = (out, Some e)"
      using Pair by (simp add: poll_loop_append loop_body_def)
    then show ?thesis by (simp add: main_def Let_def split: option.splits)
  next
    case (Some e')
    then have "poll_loop d (pre @ PollRaise e # post) banner = (out, Some e')"
      using Pair by (simp add: poll_loop_append)
    then show ?thesis by (simp add: main_def Let_def split: option.splits)
  qed
qed

text \<open>
  Claim C10. Whatever the polls give and whatever the deserializer does, \<open>close()\<close> has
  been called exactly once when \<open>main\<close> has left the loop, by returning or by raising,
  and not at all while it is still polling. An exception raised by a poll always ends the
  run. After polls that are no message, a message with an error, a message that
  deserializes to None or a message that is printed, a KeyboardInterrupt makes \<open>main\<close>
  return. A message that deserializes to None changes nothing: the run is the one without
  that message, so nothing is printed for it and the loop goes on.
\<close>

theorem consumer_main_closes_exactly_once:
  "close_calls (cons (main d polls)) = (if status (main d polls) = Polling then 0 else 1)
   \<and> status (main d (pre @ PollRaise e # post)) \<noteq> Polling
   \<and> (list_all (benign d) pre \<longrightarrow>
        status (main d (pre @ PollRaise KeyboardInterrupt # post)) = Returned
        \<and> close_calls (cons (main d (pre @ PollRaise KeyboardInterrupt # post))) = 1)
   \<and> (msg_error msg = None \<and> d (msg_value msg) = Inr PNone \<longrightarrow>
        main d (pre @ PollMsg msg # post) = main d (pre @ post))"
proof -
  have "list_all (benign d) pre \<longrightarrow>
        status (main d (pre @ PollRaise KeyboardInterrupt # post)) = Returned
        \<and> close_calls (cons (main d (pre @ PollRaise KeyboardInterrupt # post))) = 1"
    using main_returns [of d pre post]
      main_close_calls [of d "pre @ PollRaise KeyboardInterrupt # post"]
    by simp
  then show ?thesis
    using main_close_calls [of d polls] main_exits [of d pre e post]
      main_skips_None [of msg d pre post]
    by blast
qed

lemma demo_benign: "list_all (benign demo_deserializer) demo_polls"
  by (simp add: demo_polls_def demo_deserializer_def print_order_def create_sample_order_def
      fmt1_def fmt2_def getitem2_def items_len_def)

theorem consumer_main_closes_exactly_once_witness:
  "list_all (benign demo_deserializer) demo_polls
   \<and> status (main demo_deserializer (demo_polls @ PollRaise KeyboardInterrupt # [PollNone])) = Returned
   \<and> close_calls (cons (main demo_deserializer (demo_polls @ PollRaise KeyboardInterrupt # [PollNone]))) = 1
   \<and> msg_error \<lparr>msg_error = None, msg_value = None\<rparr> = None
   \<and> demo_deserializer (msg_value \<lparr>msg_error = None, msg_value = None\<rparr>) = Inr PNone
   \<and> main demo_deserializer
        (demo_polls @ PollMsg \<lparr>msg_error = None, msg_value = None\<rparr> # [PollRaise KeyboardInterrupt, PollNone])
       = main demo_deserializer (demo_polls @ [PollRaise KeyboardInterrupt, PollNone])"
proof -
  have b: "list_all (benign demo_deserializer) demo_polls"
    by (rule demo_benign)
  have n: "msg_error \<lparr>msg_error = None, msg_value = None\<rparr> = None
           \<and> demo_deserializer (msg_value \<lparr>msg_error = None, msg_value = None\<rparr>) = Inr PNone"
    by (simp add: demo_deserializer_def)
  note t = consumer_main_closes_exactly_once [of demo_deserializer
      "demo_polls @ PollRaise KeyboardInterrupt # [PollNone]" demo_polls KeyboardInterrupt "[PollNone]"]
  note u = consumer_main_closes_exactly_once [of demo_deserializer
      "[]" demo_polls KeyboardInterrupt "[PollRaise KeyboardInterrupt, PollNone]"
      "\<lparr>msg_error = None, msg_value = None\<rparr>"]
  from t b have r: "status (main demo_deserializer (demo_polls @ PollRaise KeyboardInterrupt # [PollNone])) = Returned"
    and c: "close_calls (cons (main demo_deserializer (demo_polls @ PollRaise KeyboardInterrupt # [PollNone]))) = 1"
    by blast+
  from u n have s: "main demo_deserializer
        (demo_polls @ PollMsg \<lparr>msg_error = None, msg_value = None\<rparr> # [PollRaise KeyboardInterrupt, PollNone])
       = main demo_deserializer (demo_polls @ [PollRaise KeyboardInterrupt, PollNone])"
    by blast
  from b r c n s show ?thesis by blast
qed


section \<open>Properties of the wire codec\<close>

lemma from_be32_be32: "from_be32 (be32 w) = w"
proof (rule bit_word_eqI)
  fix n :: nat
  assume "n < LENGTH(32)"
  then have n: "n < 32" by simp
  consider "n < 8" | "8 \<le> n" "n < 16" | "16 \<le> n" "n < 24" | "24 \<le> n" "n < 32"
    using n by linarith
  then show "bit (from_be32 (be32 w)) n = bit w n"
  proof cases
    case 1
    then show ?thesis by (auto simp add: from_be32_def be32_def bit_simps)
  next
    case 2
    then show ?thesis by (auto simp add: from_be32_def be32_def bit_simps)
  next
    case 3
    then show ?thesis by (auto simp add: from_be32_def be32_def bit_simps)
  next
    case 4
    then show ?thesis by (auto simp add: from_be32_def be32_def bit_simps)
  qed
qed

lemma unat_byte: "unat (ucast (drop_bit k (w :: 32 word)) :: 8 word) = unat w div 2 ^ k mod 256"
proof -
  have "unat (ucast (drop_bit k w) :: 8 word) = take_bit 8 (drop_bit k (unat w))"
    by (simp only: unsigned_ucast_eq unat_drop_bit_eq) simp
  then show ?thesis
    by (simp add: take_bit_eq_mod drop_bit_eq_div)
qed

lemma split_bytes:
  fixes n :: nat
  assumes "n < 2 ^ 32"
  shows "(n div 2 ^ 24 mod 256) * 2 ^ 24 + (n div 2 ^ 16 mod 256) * 2 ^ 16
         + (n div 2 ^ 8 mod 256) * 2 ^ 8 + n mod 256 = n"
proof -
  define a where "a = n div 256"
  define b where "b = a div 256"
  define c where "c = b div 256"
  have n: "n = a * 256 + n mod 256" by (simp add: a_def)
  have a: "a = b * 256 + a mod 256" by (simp add: b_def)
  have b: "b = c * 256 + b mod 256" by (simp add: c_def)
  have c: "c < 256" using assms by (simp add: a_def b_def c_def div_mult2_eq)
  have d8: "n div 2 ^ 8 = a" by (simp add: a_def)
  have d16: "n div 2 ^ 16 = b" by (simp add: a_def b_def div_mult2_eq)
  have d24: "n div 2 ^ 24 = c" by (simp add: a_def b_def c_def div_mult2_eq)
  have "c mod 256 = c" using c by simp
  then have "(n div 2 ^ 24 mod 256) * 2 ^ 24 + (n div 2 ^ 16 mod 256) * 2 ^ 16
         + (n div 2 ^ 8 mod 256) * 2 ^ 8 + n mod 256
         = c * 2 ^ 24 + (b mod 256) * 2 ^ 16 + (a mod 256) * 2 ^ 8 + n mod 256"
    by (simp only: d8 d16 d24)
  also have "\<dots> = n" using n a b by simp
  finally show ?thesis .
qed

lemma be32_value:
  "unat (be32 w ! 0) * 2 ^ 24 + unat (be32 w ! 1) * 2 ^ 16 + unat (be32 w ! 2) * 2 ^ 8
   + unat (be32 w ! 3) = unat w"
proof -
  have lt: "unat w < 2 ^ 32" using unsigned_less [of w, where ?'a = nat] by simp
  have b3: "unat (ucast w :: 8 word) = unat w mod 256" using unat_byte [of 0 w] by simp
  show ?thesis
    using split_bytes [OF lt] by (simp only: be32_def unat_byte b3 nth_Cons_0 nth_Cons_Suc One_nat_def numeral_2_eq_2 numeral_3_eq_3)
qed

lemma encode_Inr:
  assumes "encode c gid r = Inr bs"
  obtains s payload where "resolve c gid = Inr s" "avro_write c s r = Inr payload"
    "bs = format_marker c # be32 gid @ payload"
  using assms by (auto simp: encode_def split: sum.splits)

lemma length_be32: "length (be32 w) = 4"
  by (simp add: be32_def)

lemma decode_frame:
  assumes "resolve c gid = Inr s"
  shows "decode c (format_marker c # be32 gid @ payload)
         = (case avro_read c s payload of None \<Rightarrow> Inl SchemaMismatch | Some r \<Rightarrow> Inr (gid, r))"
  using assms by (simp add: decode_def header_length_def length_be32 from_be32_be32)

text \<open>
  Claim C3. Whenever \<open>encode\<close> produces bytes for a globalId and a record, byte 0 is the
  format marker, bytes 1 to 4 are the globalId as a big-endian unsigned 32-bit integer
  (their weighted sum is its value), the bytes after the header are the Avro encoding of
  the record against the resolved schema, and \<open>decode\<close> reads this framing back: it
  finds the same globalId and hands exactly those remaining bytes to the Avro decoder.
\<close>

theorem encode_wire_layout:
  assumes "encode c gid r = Inr bs"
  shows "\<exists>s payload. resolve c gid = Inr s \<and> avro_write c s r = Inr payload
     \<and> length bs = header_length + length payload
     \<and> bs ! 0 = format_marker c
     \<and> unat (bs ! 1) * 2 ^ 24 + unat (bs ! 2) * 2 ^ 16 + unat (bs ! 3) * 2 ^ 8 + unat (bs ! 4)
         = unat gid
     \<and> drop header_length bs = payload
     \<and> decode c bs
         = (case avro_read c s payload of None \<Rightarrow> Inl SchemaMismatch | Some r' \<Rightarrow> Inr (gid, r'))"
proof -
  from assms obtain s payload where s: "resolve c gid = Inr s"
    and p: "avro_write c s r = Inr payload"
    and bs: "bs = format_marker c # be32 gid @ payload"
    by (rule encode_Inr)
  have len: "length bs = header_length + length payload"
    by (simp add: bs header_length_def length_be32)
  have m: "bs ! 0 = format_marker c"
    by (simp add: bs)
  have b: "bs ! 1 = be32 gid ! 0" "bs ! 2 = be32 gid ! 1" "bs ! 3 = be32 gid ! 2" "bs ! 4 = be32 gid ! 3"
    by (simp_all add: bs be32_def)
  have v: "unat (bs ! 1) * 2 ^ 24 + unat (bs ! 2) * 2 ^ 16 + unat (bs ! 3) * 2 ^ 8 + unat (bs ! 4)
         = unat gid"
    by (simp only: b be32_value)
  have d: "drop header_length bs = payload"
    by (simp add: bs header_length_def length_be32)
  have r: "decode c bs
         = (case avro_read c s payload of None \<Rightarrow> Inl SchemaMismatch | Some r' \<Rightarrow> Inr (gid, r'))"
    unfolding bs by (rule decode_frame [OF s])
  from s p len m v d r show ?thesis by blast
qed

lemma demo_encode: "encode demo_collaborators 0x01020304 [7, 9] = Inr [0, 1, 2, 3, 4, 7, 9]"
  by (simp add: encode_def demo_collaborators_def be32_def)

theorem encode_wire_layout_witness:
  "encode demo_collaborators 0x01020304 [7, 9] = Inr [0, 1, 2, 3, 4, 7, 9]
   \<and> unat (([0, 1, 2, 3, 4, 7, 9] :: 8 word list) ! 1) * 2 ^ 24 + unat (([0, 1, 2, 3, 4, 7, 9] :: 8 word list) ! 2) * 2 ^ 16
       + unat (([0, 1, 2, 3, 4, 7, 9] :: 8 word list) ! 3) * 2 ^ 8 + unat (([0, 1, 2, 3, 4, 7, 9] :: 8 word list) ! 4)
       = unat (0x01020304 :: 32 word)
   \<and> drop header_length ([0, 1, 2, 3, 4, 7, 9] :: 8 word list) = [7, 9]
   \<and> decode demo_collaborators [0, 1, 2, 3, 4, 7, 9] = Inr (0x01020304, [7, 9])"
proof -
  have e: "encode demo_collaborators 0x01020304 [7, 9] = Inr [0, 1, 2, 3, 4, 7, 9]"
    by (rule demo_encode)
  from encode_wire_layout [OF e] obtain s payload where
      "resolve demo_collaborators 0x01020304 = Inr s"
      "avro_write demo_collaborators s [7, 9] = Inr payload"
      "unat (([0, 1, 2, 3, 4, 7, 9] :: 8 word list) ! 1) * 2 ^ 24 + unat (([0, 1, 2, 3, 4, 7, 9] :: 8 word list) ! 2) * 2 ^ 16
       + unat (([0, 1, 2, 3, 4, 7, 9] :: 8 word list) ! 3) * 2 ^ 8 + unat (([0, 1, 2, 3, 4, 7, 9] :: 8 word list) ! 4)
       = unat (0x01020304 :: 32 word)"
      "drop header_length ([0, 1, 2, 3, 4, 7, 9] :: 8 word list) = payload"
      "decode demo_collaborators [0, 1, 2, 3, 4, 7, 9]
         = (case avro_read demo_collaborators s payload of None \<Rightarrow> Inl SchemaMismatch | Some r' \<Rightarrow> Inr (0x01020304, r'))"
    by blast
  moreover from this have "payload = [7, 9]"
    by (simp add: demo_collaborators_def)
  ultimately show ?thesis using e
    by (simp add: demo_collaborators_def)
qed


end
